theory Spec2Isabelle
  imports Complex_Main "HOL-Library.DAList"
begin

section \<open>The regression tree of pymc\_bart/tree.py\<close>

text \<open>
  The model follows \<^verbatim>\<open>src/pymc_bart/tree.py\<close> as Python and NumPy read it.
  \<^item> \<open>Node\<close> and \<open>Tree\<close> are read as the plain Python classes under their
    \<^verbatim>\<open>@jitclass\<close> decorators; what numba compiles them to is not modelled.
  \<^item> Python integers are \<open>int\<close>; \<open>//\<close> is floor division, which is \<open>div\<close> on \<open>int\<close>.
  \<^item> A \<open>float64\<close> that the tree stores (a leaf value, a threshold, a buffer entry, a
    coordinate of \<open>x\<close>) is a \<open>real\<close>: the tree only stores, compares and copies them.
    The one float the code computes, \<open>np.mean\<close>, has the extra result \<open>NaN\<close>.
  \<^item> A NumPy array is a list; a 2-D array is the list of its rows.
  \<^item> The \<open>dict\<close> of nodes is an association list with distinct keys in insertion
    order (\<open>DAList\<close>): \<open>d[k] = v\<close> overwrites in place or appends, as \<open>DAList.update\<close> does.
  \<^item> An attribute removed by \<open>del obj.attr\<close> is \<open>None\<close>; reading it raises
    \<open>AttributeError\<close>.
  \<^item> Every exception is a value: results are \<open>py_error + 'a\<close>.
  \<^item> The recursive traversals are \<open>partial_function (option)\<close>: a call that would
    recurse forever has the value \<open>None\<close>.
\<close>

datatype py_error = KeyError | AttributeError | IndexError

datatype npfloat = Float real | NaN

subsection \<open>Node\<close>

record Node =
  index :: int
  node_value :: real
  idx_split_variable :: int
  idx_data_points :: "int list option"

text \<open>\<^verbatim>\<open>Node.__init__\<close>\<close>

definition Node_init :: Node where
  "Node_init = \<lparr>index = - 1, node_value = 0, idx_split_variable = - 1,
                 idx_data_points = Some []\<rparr>"

definition new_leaf_node :: "Node \<Rightarrow> int \<Rightarrow> real \<Rightarrow> int list \<Rightarrow> Node" where
  "new_leaf_node self i v pts =
     self\<lparr>index := i, node_value := v, idx_data_points := Some pts,
          idx_split_variable := - 1\<rparr>"

definition new_split_node :: "Node \<Rightarrow> int \<Rightarrow> real \<Rightarrow> int \<Rightarrow> Node" where
  "new_split_node self i split_value split_variable =
     self\<lparr>index := i, node_value := split_value, idx_data_points := Some [],
          idx_split_variable := split_variable\<rparr>"


definition get_idx_left_child :: "Node \<Rightarrow> int" where
  "get_idx_left_child self = index self * 2 + 1"

definition get_idx_right_child :: "Node \<Rightarrow> int" where
  "get_idx_right_child self = get_idx_left_child self + 1"

definition is_split_node :: "Node \<Rightarrow> bool" where
  "is_split_node self = (idx_split_variable self \<ge> 0)"

definition is_leaf_node :: "Node \<Rightarrow> bool" where
  "is_leaf_node self = (\<not> is_split_node self)"

subsection \<open>NumPy operations the tree calls\<close>

text \<open>
  \<^verbatim>\<open>np.append(arr, v)\<close> returns a new array and leaves \<open>arr\<close> as it was.
\<close>

definition np_append :: "'a list \<Rightarrow> 'a \<Rightarrow> 'a list" where
  "np_append arr v = arr @ [v]"

text \<open>
  \<^verbatim>\<open>arr.remove(v)\<close> on a \<^verbatim>\<open>numpy.ndarray\<close>: the type has no such attribute.
\<close>

definition ndarray_remove :: "int list \<Rightarrow> int \<Rightarrow> py_error + int list" where
  "ndarray_remove arr v = Inl AttributeError"

text \<open>\<^verbatim>\<open>np.mean(values, 0)\<close> of a list of floats; the mean of no value is \<open>nan\<close>.\<close>

definition np_mean :: "real list \<Rightarrow> npfloat" where
  "np_mean vs = (if vs = [] then NaN else Float (sum_list vs / real (length vs)))"

text \<open>
  \<^verbatim>\<open>output[idx] = v\<close> for a 2-D \<open>output\<close>, an integer array \<open>idx\<close> and a scalar
  \<open>v\<close>: every row named by \<open>idx\<close> is filled with \<open>v\<close>. An index \<open>i\<close> with
  \<open>- n \<le> i < 0\<close> names row \<open>n + i\<close>; any other index outside \<open>0 .. n - 1\<close> raises
  \<open>IndexError\<close>.
\<close>

definition row_of :: "nat \<Rightarrow> int \<Rightarrow> nat" where
  "row_of n i = nat (if i < 0 then int n + i else i)"

definition fill_row :: "real \<Rightarrow> real list list \<Rightarrow> int \<Rightarrow> real list list" where
  "fill_row v out i =
     (let r = row_of (length out) i in out[r := map (\<lambda>_. v) (out ! r)])"

definition scatter :: "real list list \<Rightarrow> int list \<Rightarrow> real \<Rightarrow> py_error + real list list" where
  "scatter out idx v =
     (if list_all (\<lambda>i. - int (length out) \<le> i \<and> i < int (length out)) idx
      then Inr (foldl (fill_row v) out idx)
      else Inl IndexError)"

subsection \<open>Tree\<close>

record Tree =
  tree_structure :: "(int, Node) alist"
  idx_leaf_nodes :: "int list option"
  "output" :: "real list list option"
  leaf_node_value :: real

text \<open>\<^verbatim>\<open>Tree.__init__\<close>\<close>

definition Tree_init :: "real \<Rightarrow> int list \<Rightarrow> real list list \<Rightarrow> Tree" where
  "Tree_init v pts out =
     \<lparr>tree_structure = DAList.update 0 (new_leaf_node Node_init 0 v pts) DAList.empty,
      idx_leaf_nodes = Some [0],
      output = Some out,
      leaf_node_value = v\<rparr>"

definition get_node :: "Tree \<Rightarrow> int \<Rightarrow> py_error + Node" where
  "get_node self i =
     (case DAList.lookup (tree_structure self) i of
        None \<Rightarrow> Inl KeyError
      | Some node \<Rightarrow> Inr node)"

text \<open>
  \<^verbatim>\<open>set_node\<close>: the node is stored; for a leaf, \<^verbatim>\<open>np.append(self.idx_leaf_nodes, index)\<close>
  builds a new array that the statement drops, so \<open>idx_leaf_nodes\<close> keeps its value.
\<close>

definition set_node :: "Tree \<Rightarrow> int \<Rightarrow> Node \<Rightarrow> py_error + Tree" where
  "set_node self i node =
     (let self' = self\<lparr>tree_structure := DAList.update i node (tree_structure self)\<rparr>
      in if is_leaf_node node
         then (case idx_leaf_nodes self' of
                 None \<Rightarrow> Inl AttributeError
               | Some arr \<Rightarrow> (let dropped = np_append arr i in Inr self'))
         else Inr self')"

text \<open>
  \<^verbatim>\<open>delete_leaf_node\<close>: \<^verbatim>\<open>self.idx_leaf_nodes.remove(index)\<close> runs first, then
  \<^verbatim>\<open>del self.tree_structure[index]\<close>.
\<close>

definition delete_leaf_node :: "Tree \<Rightarrow> int \<Rightarrow> py_error + Tree" where
  "delete_leaf_node self i =
     (case idx_leaf_nodes self of
        None \<Rightarrow> Inl AttributeError
      | Some arr \<Rightarrow>
          (case ndarray_remove arr i of
             Inl e \<Rightarrow> Inl e
           | Inr arr' \<Rightarrow>
               (case DAList.lookup (tree_structure self) i of
                  None \<Rightarrow> Inl KeyError
                | Some _ \<Rightarrow>
                    Inr (self\<lparr>idx_leaf_nodes := Some arr',
                              tree_structure := DAList.delete i (tree_structure self)\<rparr>))))"

subsection \<open>copy and trim\<close>

text \<open>
  The loop of \<^verbatim>\<open>copy\<close> over \<^verbatim>\<open>self.tree_structure.items()\<close>: a new node per entry,
  with a copy of the entry's array, stored by \<^verbatim>\<open>tree[k] = node\<close>, which is \<open>set_node\<close>.
\<close>

fun copy_loop :: "(int \<times> Node) list \<Rightarrow> Tree \<Rightarrow> py_error + Tree" where
  "copy_loop [] tree = Inr tree"
| "copy_loop ((k, v) # kvs) tree =
     (case idx_data_points v of
        None \<Rightarrow> Inl AttributeError
      | Some pts \<Rightarrow>
          (let node = Node_init\<lparr>index := index v, node_value := node_value v,
                                idx_data_points := Some pts,
                                idx_split_variable := idx_split_variable v\<rparr>
           in case set_node tree k node of
                Inl e \<Rightarrow> Inl e
              | Inr tree' \<Rightarrow> copy_loop kvs tree'))"

definition copy :: "Tree \<Rightarrow> py_error + Tree" where
  "copy self =
     (case DAList.lookup (tree_structure self) 0 of
        None \<Rightarrow> Inl KeyError
      | Some root_node \<Rightarrow>
          (case idx_data_points root_node of
             None \<Rightarrow> Inl AttributeError
           | Some pts \<Rightarrow>
               (case output self of
                  None \<Rightarrow> Inl AttributeError
                | Some out \<Rightarrow>
                    copy_loop (DAList.impl_of (tree_structure self))
                      (Tree_init (leaf_node_value self) pts out))))"



subsection \<open>Prediction over the training rows\<close>

text \<open>
  The loop of \<^verbatim>\<open>_predict\<close> over \<^verbatim>\<open>self.idx_leaf_nodes\<close>, on the buffer \<open>out\<close>.
\<close>

fun predict_loop :: "Tree \<Rightarrow> int list \<Rightarrow> real list list \<Rightarrow> py_error + real list list" where
  "predict_loop self [] out = Inr out"
| "predict_loop self (node_index # rest) out =
     (case get_node self node_index of
        Inl e \<Rightarrow> Inl e
      | Inr leaf_node \<Rightarrow>
          (case idx_data_points leaf_node of
             None \<Rightarrow> Inl AttributeError
           | Some pts \<Rightarrow>
               (case scatter out pts (node_value leaf_node) of
                  Inl e \<Rightarrow> Inl e
                | Inr out' \<Rightarrow> predict_loop self rest out')))"

text \<open>
  \<^verbatim>\<open>_predict\<close> writes into \<open>self.output\<close> itself and returns its transpose: the result
  is the tree with the buffer as written and the array returned.
\<close>

definition predict_batch :: "Tree \<Rightarrow> py_error + (Tree \<times> real list list)" where
  "predict_batch self =
     (case output self of
        None \<Rightarrow> Inl AttributeError
      | Some out \<Rightarrow>
          (case idx_leaf_nodes self of
             None \<Rightarrow> Inl AttributeError
           | Some leaves \<Rightarrow>
               (case predict_loop self leaves out of
                  Inl e \<Rightarrow> Inl e
                | Inr out' \<Rightarrow> Inr (self\<lparr>output := Some out'\<rparr>, transpose out'))))"

subsection \<open>Prediction at a point\<close>

text \<open>
  \<^verbatim>\<open>_traverse_leaf_values\<close>: the result is the list object \<open>leaf_values\<close> as the call
  leaves it. At a leaf, \<^verbatim>\<open>np.append(leaf_values, node.value)\<close> builds a new array that
  the statement drops.
\<close>

partial_function (option) traverse_leaf_values ::
  "Tree \<Rightarrow> real list \<Rightarrow> int \<Rightarrow> (py_error + real list) option" where
  "traverse_leaf_values self leaf_values node_index =
     (case get_node self node_index of
        Inl e \<Rightarrow> Some (Inl e)
      | Inr node \<Rightarrow>
          if is_leaf_node node
          then (let dropped = np_append leaf_values (node_value node)
                in Some (Inr leaf_values))
          else Option.bind
                 (traverse_leaf_values self leaf_values (get_idx_left_child node))
                 (\<lambda>r. case r of
                         Inl e \<Rightarrow> Some (Inl e)
                       | Inr leaf_values' \<Rightarrow>
                           traverse_leaf_values self leaf_values'
                             (get_idx_right_child node)))"

partial_function (option) traverse_tree ::
  "Tree \<Rightarrow> real list \<Rightarrow> int \<Rightarrow> int list \<Rightarrow> (py_error + npfloat) option" where
  "traverse_tree self x node_index excluded =
     (case get_node self node_index of
        Inl e \<Rightarrow> Some (Inl e)
      | Inr current_node \<Rightarrow>
          if is_leaf_node current_node
          then Some (Inr (Float (node_value current_node)))
          else if idx_split_variable current_node \<in> set excluded
          then Option.bind (traverse_leaf_values self [] node_index)
                 (\<lambda>r. case r of
                         Inl e \<Rightarrow> Some (Inl e)
                       | Inr leaf_values \<Rightarrow> Some (Inr (np_mean leaf_values)))
          else if \<not> nat (idx_split_variable current_node) < length x
          then Some (Inl IndexError)
          else if x ! nat (idx_split_variable current_node) \<le> node_value current_node
          then traverse_tree self x (get_idx_left_child current_node) excluded
          else traverse_tree self x (get_idx_right_child current_node) excluded)"

text \<open>\<^verbatim>\<open>predict\<close>: a missing \<open>excluded\<close> is the empty list.\<close>

definition predict :: "Tree \<Rightarrow> real list \<Rightarrow> int list option \<Rightarrow> (py_error + npfloat) option" where
  "predict self x excluded =
     traverse_tree self x 0 (case excluded of None \<Rightarrow> [] | Some e \<Rightarrow> e)"

subsection \<open>Tree shape\<close>

text \<open>
  A full binary tree rooted at index 0, in the array numbering: the root exists; every
  node is stored at the key its \<open>index\<close> field names, a non-negative integer; a split
  node has both children \<open>2k+1\<close> and \<open>2k+2\<close>, a leaf has none; the parent
  \<open>(k-1) div 2\<close> of every node but the root exists.
\<close>

definition full_binary_tree :: "Tree \<Rightarrow> bool" where
  "full_binary_tree self =
     (let d = tree_structure self in
      DAList.lookup d 0 \<noteq> None \<and>
      list_all
        (\<lambda>(k, n).
           index n = k \<and> 0 \<le> k \<and>
           (if is_split_node n
            then DAList.lookup d (2 * k + 1) \<noteq> None \<and> DAList.lookup d (2 * k + 2) \<noteq> None
            else DAList.lookup d (2 * k + 1) = None \<and> DAList.lookup d (2 * k + 2) = None) \<and>
           (if k = 0 then True else DAList.lookup d ((k - 1) div 2) \<noteq> None))
        (DAList.impl_of d))"



subsection \<open>The scenarios\<close>

text \<open>
  Scenario 1: a tree of one leaf of value 5 over the rows 0, 1, 2, with a buffer of
  three rows and one column.
\<close>

definition scenario1 :: Tree where
  "scenario1 = Tree_init 5 [0, 1, 2] [[0], [0], [0]]"

text \<open>
  Scenario 2: the root of Scenario 1 grown, by \<open>set_node\<close>, into a split on variable 0
  at threshold 0.5, a left leaf of value 1 over the rows 0, 1 and a right leaf of value
  9 over the row 2.
\<close>

definition scenario2 :: "py_error + Tree" where
  "scenario2 =
     (case set_node scenario1 0 (new_split_node Node_init 0 (1 / 2) 0) of
        Inl e \<Rightarrow> Inl e
      | Inr t1 \<Rightarrow>
          (case set_node t1 1 (new_leaf_node Node_init 1 1 [0, 1]) of
             Inl e \<Rightarrow> Inl e
           | Inr t2 \<Rightarrow> set_node t2 2 (new_leaf_node Node_init 2 9 [2])))"

text \<open>The node dictionary and the tree that these three calls of \<open>set_node\<close> build.\<close>

definition scenario2_nodes :: "(int, Node) alist" where
  "scenario2_nodes =
     DAList.update 2 (new_leaf_node Node_init 2 9 [2])
       (DAList.update 1 (new_leaf_node Node_init 1 1 [0, 1])
          (DAList.update 0 (new_split_node Node_init 0 (1 / 2) 0) DAList.empty))"

definition scenario2_tree :: Tree where
  "scenario2_tree =
     \<lparr>tree_structure = scenario2_nodes, idx_leaf_nodes = Some [0],
      output = Some [[0], [0], [0]], leaf_node_value = 5\<rparr>"

text \<open>
  \<^verbatim>\<open>Tree.__setstate__\<close>, and the tree of Scenario 2 with both leaves registered, which
  \<^verbatim>\<open>__setstate__\<close> yields from that state.
\<close>

definition setstate ::
  "Tree \<Rightarrow> (int, Node) alist \<times> int list \<times> real list list \<times> real \<Rightarrow> Tree" where
  "setstate self state =
     (case state of (nodes, leaves, out, v) \<Rightarrow>
        self\<lparr>tree_structure := nodes, idx_leaf_nodes := Some leaves,
             output := Some out, leaf_node_value := v\<rparr>)"

definition scenario2_registered :: Tree where
  "scenario2_registered =
     setstate scenario1 (scenario2_nodes, [1, 2], [[0], [0], [0]], 5)"

section \<open>Properties\<close>

declare traverse_leaf_values.simps [code]
declare traverse_tree.simps [code]

lemmas node_defs =
  is_leaf_node_def is_split_node_def new_split_node_def new_leaf_node_def Node_init_def
  get_idx_left_child_def get_idx_right_child_def

lemma scenario2_eq: "scenario2 = Inr scenario2_tree"
  by (simp add: scenario2_def scenario1_def scenario2_tree_def scenario2_nodes_def
      set_node_def Tree_init_def node_defs)

subsection \<open>Node arithmetic\<close>



subsection \<open>Mutation\<close>


text \<open>
  C2 at a failing input: \<open>set_node\<close> stores a leaf at index 1 of the tree of Scenario 1;
  afterwards node 1 is a leaf and \<open>idx_leaf_nodes\<close> is still \<open>[0]\<close>, so the inserted
  leaf is not registered.
\<close>

theorem set_node_leaf_not_registered:
  "map_sum id (\<lambda>t. (idx_leaf_nodes t, map_sum id is_leaf_node (get_node t 1)))
     (set_node scenario1 1 (new_leaf_node Node_init 1 1 [0, 1]))
   = Inr (Some [0], Inr True)"
  by (simp add: set_node_def scenario1_def Tree_init_def get_node_def node_defs)

text \<open>
  C4 at every input: \<open>delete_leaf_node\<close> raises \<open>AttributeError\<close>, whatever the tree and
  the index, and so removes nothing.
\<close>

theorem delete_leaf_node_raises: "delete_leaf_node self i = Inl AttributeError"
  by (simp add: delete_leaf_node_def ndarray_remove_def split: option.splits)

subsection \<open>Prediction\<close>

text \<open>
  C1 at a failing input: on the tree of Scenario 2, \<open>predict [0.1] [0]\<close> returns
  \<open>nan\<close>, not the mean 5 of the two leaf values.
\<close>

theorem predict_excluded_scenario2:
  "map_sum id (\<lambda>t. predict t [1 / 10] (Some [0])) scenario2 = Inr (Some (Inr NaN))"
  unfolding scenario2_eq by code_simp

text \<open>
  C3 at a failing input: on the tree that the three calls of \<open>set_node\<close> of Scenario 2
  build, \<open>_predict\<close> returns the buffer as it was, \<open>[0, 0, 0]\<close>, not \<open>[1, 1, 9]\<close>.
\<close>

theorem predict_batch_scenario2:
  "map_sum id snd (case scenario2 of Inl e \<Rightarrow> Inl e | Inr t \<Rightarrow> predict_batch t)
   = Inr [[0, 0, 0]]"
  unfolding scenario2_eq by code_simp

text \<open>
  C7 at a failing input: the tree of Scenario 2 with its two leaves registered predicts
  \<open>[1, 1, 9]\<close>; its copy, taken before, predicts \<open>[0, 0, 0]\<close>.
\<close>

theorem copy_predict_batch_differs:
  "map_sum id snd (predict_batch scenario2_registered) = Inr [[1, 1, 9]] \<and>
   map_sum id snd (case copy scenario2_registered of Inl e \<Rightarrow> Inl e | Inr c \<Rightarrow> predict_batch c)
   = Inr [[0, 0, 0]]"
  by code_simp


subsection \<open>Lookups and one step of each traversal\<close>

lemma get_node_Inr_iff: "get_node t i = Inr n \<longleftrightarrow> DAList.lookup (tree_structure t) i = Some n"
  by (simp add: get_node_def split: option.splits)


lemma lookup_in_set:
  assumes "DAList.lookup d k = Some n"
  shows "(k, n) \<in> set (DAList.impl_of d)"
proof -
  from assms have "map_of (DAList.impl_of d) k = Some n"
    by (simp only: lookup.rep_eq)
  then show ?thesis by (rule map_of_SomeD)
qed

lemma keys_bounded:
  "\<exists>B. \<forall>k n. DAList.lookup (d :: (int, Node) alist) k = Some n \<longrightarrow> k < B"
proof -
  let ?S = "insert 0 (fst ` set (DAList.impl_of d))"
  have fin: "finite ?S" by simp
  have "\<forall>k n. DAList.lookup d k = Some n \<longrightarrow> k < Max ?S + 1"
  proof (intro allI impI)
    fix k n assume "DAList.lookup d k = Some n"
    then have "(k, n) \<in> set (DAList.impl_of d)" by (rule lookup_in_set)
    then have "fst (k, n) \<in> fst ` set (DAList.impl_of d)" by (rule imageI)
    then have "k \<in> ?S" by simp
    then have "k \<le> Max ?S" using fin by (rule Max_ge[rotated])
    then show "k < Max ?S + 1" by simp
  qed
  then show ?thesis by (rule exI)
qed

lemma tlv_KeyError:
  "get_node t i = Inl e \<Longrightarrow> traverse_leaf_values t lv i = Some (Inl e)"
  by (subst traverse_leaf_values.simps) simp

lemma tlv_leaf:
  "get_node t i = Inr n \<Longrightarrow> is_leaf_node n \<Longrightarrow> traverse_leaf_values t lv i = Some (Inr lv)"
  by (subst traverse_leaf_values.simps) (simp add: Let_def)

lemma tlv_split:
  "get_node t i = Inr n \<Longrightarrow> \<not> is_leaf_node n \<Longrightarrow>
   traverse_leaf_values t lv i =
     Option.bind (traverse_leaf_values t lv (get_idx_left_child n))
       (\<lambda>r. case r of Inl e \<Rightarrow> Some (Inl e)
            | Inr lv' \<Rightarrow> traverse_leaf_values t lv' (get_idx_right_child n))"
  by (subst traverse_leaf_values.simps) simp

lemma tt_KeyError:
  "get_node t i = Inl e \<Longrightarrow> traverse_tree t x i ex = Some (Inl e)"
  by (subst traverse_tree.simps) simp

lemma tt_leaf:
  "get_node t i = Inr n \<Longrightarrow> is_leaf_node n \<Longrightarrow>
   traverse_tree t x i ex = Some (Inr (Float (node_value n)))"
  by (subst traverse_tree.simps) simp

lemma tt_excluded:
  "get_node t i = Inr n \<Longrightarrow> \<not> is_leaf_node n \<Longrightarrow> idx_split_variable n \<in> set ex \<Longrightarrow>
   traverse_tree t x i ex =
     Option.bind (traverse_leaf_values t [] i)
       (\<lambda>r. case r of Inl e \<Rightarrow> Some (Inl e)
            | Inr leaf_values \<Rightarrow> Some (Inr (np_mean leaf_values)))"
  by (subst traverse_tree.simps) simp

lemma tt_IndexError:
  "get_node t i = Inr n \<Longrightarrow> \<not> is_leaf_node n \<Longrightarrow> idx_split_variable n \<notin> set ex \<Longrightarrow>
   \<not> nat (idx_split_variable n) < length x \<Longrightarrow>
   traverse_tree t x i ex = Some (Inl IndexError)"
  by (subst traverse_tree.simps) simp

lemma tt_left:
  "get_node t i = Inr n \<Longrightarrow> \<not> is_leaf_node n \<Longrightarrow> idx_split_variable n \<notin> set ex \<Longrightarrow>
   nat (idx_split_variable n) < length x \<Longrightarrow>
   x ! nat (idx_split_variable n) \<le> node_value n \<Longrightarrow>
   traverse_tree t x i ex = traverse_tree t x (get_idx_left_child n) ex"
  by (subst traverse_tree.simps) simp

lemma tt_right:
  "get_node t i = Inr n \<Longrightarrow> \<not> is_leaf_node n \<Longrightarrow> idx_split_variable n \<notin> set ex \<Longrightarrow>
   nat (idx_split_variable n) < length x \<Longrightarrow>
   \<not> x ! nat (idx_split_variable n) \<le> node_value n \<Longrightarrow>
   traverse_tree t x i ex = traverse_tree t x (get_idx_right_child n) ex"
  by (subst traverse_tree.simps) simp


subsection \<open>Termination\<close>

text \<open>
  The children of a node stored at its own non-negative index \<open>i\<close> have the larger
  indices \<open>2i+1\<close> and \<open>2i+2\<close>, and the keys of a dictionary are bounded: the distance
  to the bound decreases at every recursive call.
\<close>

lemma child_measure:
  assumes "index n = i" and "0 \<le> i" and "i < B"
  shows "nat (B - get_idx_left_child n) < nat (B - i)"
    and "nat (B - get_idx_right_child n) < nat (B - i)"
  using assms by (simp_all add: get_idx_left_child_def get_idx_right_child_def)

lemma traverse_leaf_values_terminates:
  assumes inv: "\<forall>k n. DAList.lookup (tree_structure t) k = Some n \<longrightarrow> index n = k \<and> 0 \<le> k"
    and bnd: "\<forall>k n. DAList.lookup (tree_structure t) k = Some n \<longrightarrow> k < B"
  shows "\<exists>r. traverse_leaf_values t lv i = Some r"
proof (induction "nat (B - i)" arbitrary: i lv rule: less_induct)
  case less
  show ?case
  proof (cases "get_node t i")
    case (Inl e)
    then have "traverse_leaf_values t lv i = Some (Inl e)" by (rule tlv_KeyError)
    then show ?thesis by (rule exI)
  next
    case gn: (Inr n)
    show ?thesis
    proof (cases "is_leaf_node n")
      case True
      with gn have "traverse_leaf_values t lv i = Some (Inr lv)" by (rule tlv_leaf)
      then show ?thesis by (rule exI)
    next
      case False
      from gn have lk: "DAList.lookup (tree_structure t) i = Some n"
        by (simp only: get_node_Inr_iff)
      from inv[rule_format, OF lk] have idx: "index n = i" and nn: "0 \<le> i" by simp_all
      from bnd[rule_format, OF lk] have lt: "i < B" .
      note unf = tlv_split[OF gn False, of lv]
      from less[OF child_measure(1)[OF idx nn lt]]
      obtain r1 where r1: "traverse_leaf_values t lv (get_idx_left_child n) = Some r1"
        by blast
      show ?thesis
      proof (cases r1)
        case (Inl e)
        with unf r1 have "traverse_leaf_values t lv i = Some (Inl e)" by simp
        then show ?thesis by (rule exI)
      next
        case (Inr lv')
        from less[OF child_measure(2)[OF idx nn lt]]
        obtain r2 where r2: "traverse_leaf_values t lv' (get_idx_right_child n) = Some r2"
          by blast
        with unf r1 Inr have "traverse_leaf_values t lv i = Some r2" by simp
        then show ?thesis by (rule exI)
      qed
    qed
  qed
qed

lemma traverse_tree_terminates:
  assumes inv: "\<forall>k n. DAList.lookup (tree_structure t) k = Some n \<longrightarrow> index n = k \<and> 0 \<le> k"
    and bnd: "\<forall>k n. DAList.lookup (tree_structure t) k = Some n \<longrightarrow> k < B"
  shows "\<exists>r. traverse_tree t x i ex = Some r"
proof (induction "nat (B - i)" arbitrary: i rule: less_induct)
  case less
  show ?case
  proof (cases "get_node t i")
    case (Inl e)
    then have "traverse_tree t x i ex = Some (Inl e)" by (rule tt_KeyError)
    then show ?thesis by (rule exI)
  next
    case gn: (Inr n)
    show ?thesis
    proof (cases "is_leaf_node n")
      case True
      with gn have "traverse_tree t x i ex = Some (Inr (Float (node_value n)))"
        by (rule tt_leaf)
      then show ?thesis by (rule exI)
    next
      case split: False
      from gn have lk: "DAList.lookup (tree_structure t) i = Some n"
        by (simp only: get_node_Inr_iff)
      from inv[rule_format, OF lk] have idx: "index n = i" and nn: "0 \<le> i" by simp_all
      from bnd[rule_format, OF lk] have lt: "i < B" .
      show ?thesis
      proof (cases "idx_split_variable n \<in> set ex")
        case True
        note unf = tt_excluded[OF gn split True, of x]
        from traverse_leaf_values_terminates[of t B "[]" i, OF inv bnd]
        obtain r1 where r1: "traverse_leaf_values t [] i = Some r1" by blast
        show ?thesis
        proof (cases r1)
          case (Inl e)
          with unf r1 have "traverse_tree t x i ex = Some (Inl e)" by simp
          then show ?thesis by (rule exI)
        next
          case (Inr vs)
          with unf r1 have "traverse_tree t x i ex = Some (Inr (np_mean vs))" by simp
          then show ?thesis by (rule exI)
        qed
      next
        case nex: False
        show ?thesis
        proof (cases "nat (idx_split_variable n) < length x")
          case False
          with gn split nex have "traverse_tree t x i ex = Some (Inl IndexError)"
            by (rule tt_IndexError)
          then show ?thesis by (rule exI)
        next
          case inb: True
          show ?thesis
          proof (cases "x ! nat (idx_split_variable n) \<le> node_value n")
            case True
            from less[OF child_measure(1)[OF idx nn lt]]
            obtain r where "traverse_tree t x (get_idx_left_child n) ex = Some r" by blast
            with tt_left[OF gn split nex inb True] have "traverse_tree t x i ex = Some r"
              by simp
            then show ?thesis by (rule exI)
          next
            case False
            from less[OF child_measure(2)[OF idx nn lt]]
            obtain r where "traverse_tree t x (get_idx_right_child n) ex = Some r" by blast
            with tt_right[OF gn split nex inb False] have "traverse_tree t x i ex = Some r"
              by simp
            then show ?thesis by (rule exI)
          qed
        qed
      qed
    qed
  qed
qed

lemma full_binary_tree_keys:
  assumes fb: "full_binary_tree t"
  shows "\<forall>k n. DAList.lookup (tree_structure t) k = Some n \<longrightarrow> index n = k \<and> 0 \<le> k"
proof (intro allI impI)
  fix k n assume "DAList.lookup (tree_structure t) k = Some n"
  then have "(k, n) \<in> set (DAList.impl_of (tree_structure t))" by (rule lookup_in_set)
  with fb show "index n = k \<and> 0 \<le> k"
    by (auto simp add: full_binary_tree_def Let_def list_all_iff)
qed

lemma full_binary_tree_scenario2: "full_binary_tree scenario2_tree"
  by (simp add: full_binary_tree_def scenario2_tree_def scenario2_nodes_def
      lookup.rep_eq update.rep_eq empty.rep_eq node_defs)

text \<open>
  C9: on a full binary tree rooted at index 0, \<open>predict\<close> returns, with a value or
  an exception, for every point \<open>x\<close> and every exclusion list (also a missing one).
\<close>

theorem predict_terminates:
  "full_binary_tree t \<Longrightarrow> \<exists>r. predict t x excluded = Some r"
proof -
  assume fb: "full_binary_tree t"
  obtain B where B: "\<forall>k n. DAList.lookup (tree_structure t) k = Some n \<longrightarrow> k < B"
    using keys_bounded[of "tree_structure t"] by (rule exE)
  show ?thesis
    unfolding predict_def
    by (rule traverse_tree_terminates[OF full_binary_tree_keys[OF fb] B])
qed

theorem predict_terminates_witness:
  "full_binary_tree scenario2_tree \<and>
   (\<exists>r. predict scenario2_tree [1 / 10] (Some [0]) = Some r)"
  using predict_terminates[of scenario2_tree "[1 / 10]" "Some [0]"]
  by (simp add: full_binary_tree_scenario2)

subsection \<open>Trimming\<close>





















end
